theory Spec2Isabelle
  imports Main "HOL-Library.Sublist"
begin

section \<open>JavaScript values, strings and errors\<close>

text \<open>
  The client in \<open>src/app.ts\<close> reads the fields of records decoded by \<open>JSON.parse\<close>; the
  decoded value has type \<open>any\<close>, so every field may hold any JSON scalar or be absent.
  A number is held as a safe integer (\<open>Number.isSafeInteger\<close>): an integer \<open>n\<close> with
  \<open>- 2^53 < n < 2^53\<close>. On these a double is exact, \<open>n + 1\<close> is computed without
  rounding, and \<open>toString\<close> prints all the digits. Fractional and larger numbers, nested
  objects and arrays as field values are not in the model.
\<close>

typedef safe_integer = "{n :: int. - (2 ^ 53) < n \<and> n < 2 ^ 53}"
  by (rule exI [of _ 0]) simp

datatype jsval = JUndefined | JNull | JBool bool | JNum safe_integer | JStr string

datatype error =
    Error string
  | TypeError
  | SyntaxError
  | SystemError string
  | GatewayError string

definition digit_char :: "nat \<Rightarrow> char" where
  "digit_char d = ''0123456789'' ! d"

fun nat_to_string :: "nat \<Rightarrow> string" where
  "nat_to_string n =
     (if n < 10 then [digit_char n] else nat_to_string (n div 10) @ [digit_char (n mod 10)])"

declare nat_to_string.simps [simp del]

text \<open>\<open>Number.prototype.toString()\<close> and \<open>String(n)\<close> on an integral number.\<close>

definition number_toString :: "int \<Rightarrow> string" where
  "number_toString i =
     (if i < 0 then CHR ''-'' # nat_to_string (nat (- i)) else nat_to_string (nat i))"

text \<open>\<open>s.startsWith(pat)\<close>, the test \<open>indexOf\<close> makes at each position.\<close>

fun startsWith :: "string \<Rightarrow> string \<Rightarrow> bool" where
  "startsWith s [] = True"
| "startsWith [] (p # ps) = False"
| "startsWith (c # cs) (p # ps) = (c = p \<and> startsWith cs ps)"

text \<open>\<open>String.prototype.indexOf\<close>: the first position where \<open>pat\<close> occurs, or \<open>-1\<close>.\<close>

fun indexOf_from :: "nat \<Rightarrow> string \<Rightarrow> string \<Rightarrow> int" where
  "indexOf_from i [] pat = (if pat = [] then int i else - 1)"
| "indexOf_from i (c # cs) pat =
     (if startsWith (c # cs) pat then int i else indexOf_from (Suc i) cs pat)"

definition indexOf :: "string \<Rightarrow> string \<Rightarrow> int" where
  "indexOf s pat = indexOf_from 0 s pat"

text \<open>\<open>s.substring(n)\<close> with one argument.\<close>

definition substring :: "string \<Rightarrow> nat \<Rightarrow> string" where
  "substring s n = drop n s"

text \<open>The method call \<open>v.toString()\<close>: a TypeError on \<open>undefined\<close> and \<open>null\<close>.\<close>

fun toString :: "jsval \<Rightarrow> error + string" where
  "toString JUndefined = Inl TypeError"
| "toString JNull = Inl TypeError"
| "toString (JBool b) = Inr (if b then ''true'' else ''false'')"
| "toString (JNum n) = Inr (number_toString (Rep_safe_integer n))"
| "toString (JStr s) = Inr s"

text \<open>String coercion, as in \<open>'text' + v\<close> and in a template literal: never fails.\<close>

fun coerce_string :: "jsval \<Rightarrow> string" where
  "coerce_string JUndefined = ''undefined''"
| "coerce_string JNull = ''null''"
| "coerce_string (JBool b) = (if b then ''true'' else ''false'')"
| "coerce_string (JNum n) = number_toString (Rep_safe_integer n)"
| "coerce_string (JStr s) = s"

text \<open>
  \<open>(v + 1).toString()\<close>: the operator \<open>+\<close> adds when \<open>v\<close> is a number, a boolean or
  \<open>null\<close>, concatenates when \<open>v\<close> is a string, and gives \<open>NaN\<close> on \<open>undefined\<close>.
  For a safe integer the sum is at most \<open>2^53\<close> in absolute value, so it is the exact sum.
\<close>

fun plus_one_toString :: "jsval \<Rightarrow> string" where
  "plus_one_toString JUndefined = ''NaN''"
| "plus_one_toString JNull = ''1''"
| "plus_one_toString (JBool b) = (if b then ''2'' else ''1'')"
| "plus_one_toString (JNum n) = number_toString (Rep_safe_integer n + 1)"
| "plus_one_toString (JStr s) = s @ ''1''"

section \<open>Asset records and the scan\<close>

record asset =
  ID :: jsval
  Color :: jsval
  Size :: jsval
  Owner :: jsval
  AppraisedValue :: jsval

text \<open>
  The decoded collection, as \<open>for (const key in result)\<close> enumerates it: the keys in
  enumeration order, each with the record \<open>result[key]\<close>.
\<close>

type_synonym collection = "(string \<times> asset) list"

text \<open>
  The loop of \<open>createAssetWithName\<close> (lines 285-307). The result is the triple of the
  loop's variables \<open>exists\<close>, \<open>size\<close>, \<open>assetIdIfExists\<close>; \<open>break\<close> ends the recursion.
\<close>

fun vote_scan :: "string \<Rightarrow> collection \<Rightarrow> error + (bool \<times> string \<times> string)" where
  "vote_scan name [] = Inr (False, '''', '''')"
| "vote_scan name ((key, a) # rest) =
     (case toString (Owner a) of
        Inl e \<Rightarrow> Inl e
      | Inr owner \<Rightarrow>
          if indexOf owner name \<noteq> - 1 then
            (let size = plus_one_toString (Size a) in
             case toString (ID a) of
               Inl e \<Rightarrow> Inl e
             | Inr assetIdIfExists \<Rightarrow> Inr (True, size, assetIdIfExists))
          else vote_scan name rest)"

text \<open>
  The loop of \<open>readAssetByName\<close> (lines 395-413). It logs one line per visited key and
  the query result at the match; the result is the list of lines logged. Here \<open>Owner\<close> is
  not converted: \<open>indexOf\<close> exists on strings only, any other value raises a TypeError.
\<close>

definition visit_line :: "string \<Rightarrow> asset \<Rightarrow> string" where
  "visit_line key a = key @ '' : '' @ coerce_string (Owner a)"

definition query_line :: "asset \<Rightarrow> string" where
  "query_line a =
     ''Query Result: '' @ coerce_string (AppraisedValue a) @ '' '' @ coerce_string (Color a)
       @ '' '' @ coerce_string (ID a) @ '' '' @ coerce_string (Owner a)
       @ '' '' @ coerce_string (Size a)"

fun query_scan :: "string \<Rightarrow> collection \<Rightarrow> string list \<Rightarrow> (error + unit) \<times> string list" where
  "query_scan name [] out = (Inr (), out)"
| "query_scan name ((key, a) # rest) out =
     (let out1 = out @ [visit_line key a] in
      case Owner a of
        JStr owner \<Rightarrow>
          if indexOf owner name \<noteq> - 1 then (Inr (), out1 @ [query_line a])
          else query_scan name rest out1
      | _ \<Rightarrow> (Inl TypeError, out1))"

section \<open>The contract, the ledger and the client state\<close>

text \<open>
  The contract object of the gateway library, the JSON parser, the random number
  generator and the file system are outside the repository; they are parameters.
  \<open>'w\<close> is the state of the ledger. \<open>evaluateTransaction\<close> reads it, \<open>submitTransaction\<close>
  may change it, and either may throw. \<open>JSON_parse\<close> stands for decoding the payload as
  UTF-8, \<open>JSON.parse\<close> and the enumeration of the parsed value by \<open>for ... in\<close>.
  \<open>random k\<close> is the value of \<open>Math.floor(Math.random() * 10000000000)\<close> at the
  \<open>k\<close>-th call. The nine strings that \<open>envOrDefault\<close> resolves when the module is
  loaded (lines 21-74) are fields as well.
\<close>

record 'w env =
  evaluateTransaction :: "string \<Rightarrow> string list \<Rightarrow> 'w \<Rightarrow> error + string"
  submitTransaction :: "string \<Rightarrow> string list \<Rightarrow> 'w \<Rightarrow> error option \<times> 'w"
  JSON_parse :: "string \<Rightarrow> error + collection"
  random :: "nat \<Rightarrow> nat"
  readdir :: "string \<Rightarrow> error + string list"
  readFile :: "string \<Rightarrow> error + string"
  path_join :: "string \<Rightarrow> string \<Rightarrow> string"
  createSsl :: "string \<Rightarrow> error option"
  createPrivateKey :: "string \<Rightarrow> error option"
  channelName :: string
  chaincodeName :: string
  mspId :: string
  cryptoPath :: string
  keyDirectoryPath :: string
  certDirectoryPath :: string
  tlsCertPath :: string
  peerEndpoint :: string
  peerHostAlias :: string

datatype event = Evaluate string "string list" | Submit string "string list"

datatype console_entry = Log string | LogError error | LogResult collection | ErrorLog string error

datatype connection = NotConnected | Connected | Released

text \<open>
  The timeout options given to \<open>connect\<close> (lines 85-103). Each is a function that the
  gateway calls at the start of a gRPC call of its class; its argument here is the value
  of \<open>Date.now()\<close> at that moment, in milliseconds, and its result the call options with
  the absolute deadline. The other options of \<open>connect\<close> (client, identity, signer,
  hash) are not part of the record.
\<close>

record call_options =
  deadline :: int

record connect_options =
  evaluateOptions :: "int \<Rightarrow> call_options"
  endorseOptions :: "int \<Rightarrow> call_options"
  submitOptions :: "int \<Rightarrow> call_options"
  commitStatusOptions :: "int \<Rightarrow> call_options"

text \<open>
  The state a run of the client changes: the ledger, the calls made on the contract in the
  order they were made, the console, the global variable \<open>assetId\<close>, the number of random
  draws so far, the gRPC client, the gateway session with the options it was connected
  with (\<open>None\<close> before \<open>connect\<close>), \<open>process.exitCode\<close>, and the rejections of promises
  that nothing awaits or catches.
\<close>

record 'w state =
  ledger :: 'w
  trace :: "event list"
  console :: "console_entry list"
  assetId :: string
  draws :: nat
  client :: connection
  gateway :: "connect_options option"
  exitCode :: "nat option"
  unhandled :: "error list"

definition console_log :: "console_entry \<Rightarrow> 'w state \<Rightarrow> 'w state" where
  "console_log x s = s\<lparr>console := console s @ [x]\<rparr>"

definition evaluate :: "'w env \<Rightarrow> string \<Rightarrow> string list \<Rightarrow> 'w state \<Rightarrow> (error + string) \<times> 'w state" where
  "evaluate env fn args s =
     (evaluateTransaction env fn args (ledger s), s\<lparr>trace := trace s @ [Evaluate fn args]\<rparr>)"

definition submit :: "'w env \<Rightarrow> string \<Rightarrow> string list \<Rightarrow> 'w state \<Rightarrow> error option \<times> 'w state" where
  "submit env fn args s =
     (case submitTransaction env fn args (ledger s) of
        (r, w) \<Rightarrow> (r, s\<lparr>ledger := w, trace := trace s @ [Submit fn args]\<rparr>))"

text \<open>\<open>assetId = `asset${String(Math.floor(Math.random() * 10000000000))}`\<close>\<close>

definition new_assetId :: "'w env \<Rightarrow> 'w state \<Rightarrow> 'w state" where
  "new_assetId env s =
     s\<lparr>assetId := ''asset'' @ number_toString (int (random env (draws s))),
        draws := Suc (draws s)\<rparr>"

section \<open>The operations\<close>

text \<open>\<open>createAssetWithName\<close> (lines 273-335): the vote.\<close>

definition createAssetWithName :: "'w env \<Rightarrow> string \<Rightarrow> 'w state \<Rightarrow> (error + unit) \<times> 'w state" where
  "createAssetWithName env name s0 =
     (let s1 = console_log (Log (CHR 0x0A # ''--> Submit Transaction: CreateAsset, creates new asset with ID, Color, Size, Owner and AppraisedValue arguments'')) s0 in
      case evaluate env ''GetAllAssets'' [] s1 of
        (Inl e, s2) \<Rightarrow> (Inl e, s2)
      | (Inr resultBytes, s2) \<Rightarrow>
          (case JSON_parse env resultBytes of
             Inl e \<Rightarrow> (Inl e, s2)
           | Inr result \<Rightarrow>
               (case vote_scan name result of
                  Inl e \<Rightarrow> (Inl e, s2)
                | Inr (exists, size', assetIdIfExists) \<Rightarrow>
                    if exists then
                      (case submit env ''UpdateAsset'' [assetIdIfExists, '''', size', name, ''''] s2 of
                         (Some e, s3) \<Rightarrow> (Inl e, s3)
                       | (None, s3) \<Rightarrow>
                           (Inr (), console_log (Log ''*** Transaction committed successfully - update'') s3))
                    else
                      (let s3 = new_assetId env s2 in
                       case submit env ''CreateAsset'' [assetId s3, '''', ''1'', name, ''''] s3 of
                         (Some e, s4) \<Rightarrow> (Inl e, s4)
                       | (None, s4) \<Rightarrow>
                           (Inr (), console_log (Log ''*** Transaction committed successfully - creation'') s4)))))"

text \<open>\<open>readAssetByName\<close> (lines 383-414): the query.\<close>

definition readAssetByName :: "'w env \<Rightarrow> string \<Rightarrow> 'w state \<Rightarrow> (error + unit) \<times> 'w state" where
  "readAssetByName env name s0 =
     (let s1 = console_log (Log (CHR 0x0A # ''--> Evaluate Transaction: ReadAsset, function returns asset attributes'')) s0 in
      case evaluate env ''GetAllAssets'' [] s1 of
        (Inl e, s2) \<Rightarrow> (Inl e, s2)
      | (Inr resultBytes, s2) \<Rightarrow>
          (case JSON_parse env resultBytes of
             Inl e \<Rightarrow> (Inl e, s2)
           | Inr result \<Rightarrow>
               (case query_scan name result [] of
                  (r, lines) \<Rightarrow> (r, s2\<lparr>console := console s2 @ map Log lines\<rparr>))))"

text \<open>\<open>getAllAssets\<close> (lines 238-248).\<close>

definition getAllAssets :: "'w env \<Rightarrow> 'w state \<Rightarrow> (error + unit) \<times> 'w state" where
  "getAllAssets env s0 =
     (let s1 = console_log (Log (CHR 0x0A # ''--> Evaluate Transaction: GetAllAssets, function returns all the current assets on the ledger'')) s0 in
      case evaluate env ''GetAllAssets'' [] s1 of
        (Inl e, s2) \<Rightarrow> (Inl e, s2)
      | (Inr resultBytes, s2) \<Rightarrow>
          (case JSON_parse env resultBytes of
             Inl e \<Rightarrow> (Inl e, s2)
           | Inr result \<Rightarrow> (Inr (), console_log (LogResult result) s2)))"

text \<open>
  One seeding step of \<open>initLedger\<close>: a new identifier, then \<open>CreateAsset\<close> inside
  \<open>try ... catch (error)\<close>, whose handler logs the error and a fixed message.
\<close>

definition seed :: "'w env \<Rightarrow> string \<Rightarrow> string \<Rightarrow> 'w state \<Rightarrow> 'w state" where
  "seed env size' owner s0 =
     (let s1 = new_assetId env s0 in
      case submit env ''CreateAsset'' [assetId s1, '''', size', owner, ''''] s1 of
        (Some e, s2) \<Rightarrow> console_log (Log (owner @ '' already created'')) (console_log (LogError e) s2)
      | (None, s2) \<Rightarrow> s2)"

text \<open>\<open>initLedger\<close> (lines 182-233).\<close>

definition initLedger :: "'w env \<Rightarrow> 'w state \<Rightarrow> (error + unit) \<times> 'w state" where
  "initLedger env s0 =
     (let s1 = console_log (Log (CHR 0x0A # ''--> Submit Transaction: InitLedger, function creates the initial set of assets on the ledger'')) s0;
          s2 = seed env ''1'' ''Tom'' s1;
          s3 = seed env ''2'' ''Cat'' s2;
          s4 = seed env ''2'' ''Dog'' s3
      in (Inr (), console_log (Log ''*** Transaction committed successfully'') s4))"

section \<open>Credentials, the connection and the timeouts\<close>

text \<open>\<open>getFirstDirFileName\<close> (lines 162-169). \<open>!file\<close> holds when the listing has no
  first entry (\<open>files[0]\<close> is \<open>undefined\<close>) and when that entry is the empty string.\<close>

definition getFirstDirFileName :: "'w env \<Rightarrow> string \<Rightarrow> error + string" where
  "getFirstDirFileName env dirPath =
     (case readdir env dirPath of
        Inl e \<Rightarrow> Inl e
      | Inr files \<Rightarrow>
          (case files of
             [] \<Rightarrow> Inl (Error (''No files in directory: '' @ dirPath))
           | file # _ \<Rightarrow>
               if file = [] then Inl (Error (''No files in directory: '' @ dirPath))
               else Inr (path_join env dirPath file)))"

text \<open>\<open>newGrpcConnection\<close> (lines 148-154), \<open>newIdentity\<close> (156-160) and \<open>newSigner\<close>
  (171-176), as far as they can fail.\<close>

definition newGrpcConnection :: "'w env \<Rightarrow> 'w state \<Rightarrow> (error + unit) \<times> 'w state" where
  "newGrpcConnection env s =
     (case readFile env (tlsCertPath env) of
        Inl e \<Rightarrow> (Inl e, s)
      | Inr tlsRootCert \<Rightarrow>
          (case createSsl env tlsRootCert of
             Some e \<Rightarrow> (Inl e, s)
           | None \<Rightarrow> (Inr (), s\<lparr>client := Connected\<rparr>)))"

definition newIdentity :: "'w env \<Rightarrow> error + string" where
  "newIdentity env =
     (case getFirstDirFileName env (certDirectoryPath env) of
        Inl e \<Rightarrow> Inl e
      | Inr certPath \<Rightarrow> readFile env certPath)"

definition newSigner :: "'w env \<Rightarrow> error + string" where
  "newSigner env =
     (case getFirstDirFileName env (keyDirectoryPath env) of
        Inl e \<Rightarrow> Inl e
      | Inr keyPath \<Rightarrow>
          (case readFile env keyPath of
             Inl e \<Rightarrow> Inl e
           | Inr privateKeyPem \<Rightarrow>
               (case createPrivateKey env privateKeyPem of
                  Some e \<Rightarrow> Inl e
                | None \<Rightarrow> Inr privateKeyPem)))"

text \<open>The four option functions as \<open>main\<close> writes them in the call of \<open>connect\<close>.\<close>

definition gateway_options :: connect_options where
  "gateway_options =
     \<lparr> evaluateOptions = (\<lambda>now. \<lparr>deadline = now + 5000\<rparr>),
       endorseOptions = (\<lambda>now. \<lparr>deadline = now + 15000\<rparr>),
       submitOptions = (\<lambda>now. \<lparr>deadline = now + 5000\<rparr>),
       commitStatusOptions = (\<lambda>now. \<lparr>deadline = now + 60000\<rparr>) \<rparr>"

definition seconds :: "int \<Rightarrow> int" where
  "seconds n = 1000 * n"

text \<open>\<open>connect\<close> returns the gateway session, which keeps the options.\<close>

definition connect :: "connect_options \<Rightarrow> 'w state \<Rightarrow> 'w state" where
  "connect options s = s\<lparr>gateway := Some options\<rparr>"

text \<open>\<open>displayInputParameters\<close> (lines 449-459).\<close>

definition displayInputParameters :: "'w env \<Rightarrow> 'w state \<Rightarrow> 'w state" where
  "displayInputParameters env s =
     s\<lparr>console := console s @
        [Log (''channelName:       '' @ channelName env),
         Log (''chaincodeName:     '' @ chaincodeName env),
         Log (''mspId:             '' @ mspId env),
         Log (''cryptoPath:        '' @ cryptoPath env),
         Log (''keyDirectoryPath:  '' @ keyDirectoryPath env),
         Log (''certDirectoryPath: '' @ certDirectoryPath env),
         Log (''tlsCertPath:       '' @ tlsCertPath env),
         Log (''peerEndpoint:      '' @ peerEndpoint env),
         Log (''peerHostAlias:     '' @ peerHostAlias env)]\<rparr>"

section \<open>The entry point\<close>

text \<open>
  A promise that nothing awaits and nothing catches: the task runs, and a failure is
  neither returned to the caller nor thrown into it; it is an unhandled rejection.
  The tasks of one run are executed one after the other, in the order they were started.
  That is the only schedule when the command line holds a single operation.
\<close>

definition detached :: "('w state \<Rightarrow> (error + unit) \<times> 'w state) \<Rightarrow> 'w state \<Rightarrow> 'w state" where
  "detached task s =
     (case task s of
        (Inl e, s1) \<Rightarrow> s1\<lparr>unhandled := unhandled s1 @ [e]\<rparr>
      | (Inr _, s1) \<Rightarrow> s1)"

text \<open>
  The callback given to \<open>process.argv.forEach\<close> (lines 119-138), an \<open>async\<close> function:
  the query and the vote are called without \<open>await\<close>, the other two with it. Its first
  two \<open>if\<close> statements are \<open>run_query\<close> and \<open>run_vote\<close>.
\<close>

definition run_query :: "'w env \<Rightarrow> string \<Rightarrow> 'w state \<Rightarrow> 'w state" where
  "run_query env val s =
     (if indexOf val ''query='' \<noteq> - 1
      then detached (readAssetByName env (substring val 6)) (console_log (Log val) s)
      else s)"

definition run_vote :: "'w env \<Rightarrow> string \<Rightarrow> 'w state \<Rightarrow> 'w state" where
  "run_vote env val s =
     (if indexOf val ''vote='' \<noteq> - 1
      then detached (createAssetWithName env (substring val 5)) (console_log (Log val) s)
      else s)"

definition callback :: "'w env \<Rightarrow> string \<Rightarrow> 'w state \<Rightarrow> (error + unit) \<times> 'w state" where
  "callback env val s0 =
     (let s1 = run_query env val s0;
          s2 = run_vote env val s1
      in case (if indexOf val ''getAllVotes=true'' \<noteq> - 1 then getAllAssets env s2 else (Inr (), s2)) of
           (Inl e, s3) \<Rightarrow> (Inl e, s3)
         | (Inr _, s3) \<Rightarrow>
             if indexOf val ''initialize=true'' \<noteq> - 1 then initLedger env s3 else (Inr (), s3))"

text \<open>\<open>forEach\<close> calls the callback on each argument and drops the promise it returns.\<close>

fun forEach :: "'w env \<Rightarrow> string list \<Rightarrow> 'w state \<Rightarrow> 'w state" where
  "forEach env [] s = s"
| "forEach env (val # argv) s = forEach env argv (detached (callback env val) s)"

text \<open>
  \<open>main\<close> (lines 79-141). The gateway is connected once the client, the identity and
  the signer are there; the dispatch follows. The \<open>finally\<close> block after the dispatch is
  empty, so the \<open>try\<close> statement adds nothing to the dispatch.
\<close>

definition main :: "'w env \<Rightarrow> string list \<Rightarrow> 'w state \<Rightarrow> (error + unit) \<times> 'w state" where
  "main env argv s0 =
     (let s1 = displayInputParameters env s0 in
      case newGrpcConnection env s1 of
        (Inl e, s2) \<Rightarrow> (Inl e, s2)
      | (Inr _, s2) \<Rightarrow>
          (case newIdentity env of
             Inl e \<Rightarrow> (Inl e, s2)
           | Inr identity \<Rightarrow>
               (case newSigner env of
                  Inl e \<Rightarrow> (Inl e, s2)
                | Inr signer \<Rightarrow> (Inr (), forEach env argv (connect gateway_options s2)))))"

text \<open>
  The module's top level: the initial value of \<open>assetId\<close> (line 77) and
  \<open>main().catch(...)\<close> (lines 143-146).
\<close>

definition initial :: "'w env \<Rightarrow> 'w \<Rightarrow> 'w state" where
  "initial env w =
     new_assetId env
       \<lparr> ledger = w, trace = [], console = [], assetId = [], draws = 0,
         client = NotConnected, gateway = None, exitCode = None, unhandled = [] \<rparr>"

definition program :: "'w env \<Rightarrow> string list \<Rightarrow> 'w \<Rightarrow> 'w state" where
  "program env argv w =
     (case main env argv (initial env w) of
        (Inl e, s) \<Rightarrow>
          (console_log (ErrorLog ''******** FAILED to run the application:'' e) s)\<lparr>exitCode := Some 1\<rparr>
      | (Inr _, s) \<Rightarrow> s)"


section \<open>Example data\<close>

text \<open>Two records whose owners are \<open>Tomas\<close> and \<open>Tom\<close>, used to evaluate the scans.\<close>

definition asset_Tomas :: asset where
  "asset_Tomas =
     \<lparr>ID = JStr ''asset1'', Color = JStr [], Size = JNum (Abs_safe_integer 4), Owner = JStr ''Tomas'',
      AppraisedValue = JNum (Abs_safe_integer 0)\<rparr>"

definition asset_Tom :: asset where
  "asset_Tom =
     \<lparr>ID = JStr ''asset2'', Color = JStr [], Size = JNum (Abs_safe_integer 1), Owner = JStr ''Tom'',
      AppraisedValue = JNum (Abs_safe_integer 0)\<rparr>"

text \<open>A record whose size is the string \<open>2\<close>, and one whose size is the number \<open>2\<close>.\<close>

definition asset_Cat_string :: asset where
  "asset_Cat_string =
     \<lparr>ID = JStr ''asset7'', Color = JStr [], Size = JStr ''2'', Owner = JStr ''Cat'',
      AppraisedValue = JStr []\<rparr>"

definition asset_Cat :: asset where
  "asset_Cat =
     \<lparr>ID = JStr ''asset7'', Color = JStr [], Size = JNum (Abs_safe_integer 2), Owner = JStr ''Cat'',
      AppraisedValue = JNum (Abs_safe_integer 0)\<rparr>"

text \<open>
  An environment for evaluating the operations: the ledger is the number of committed
  transactions; every evaluation returns \<open>ev\<close>, every payload decodes to \<open>parsed\<close>, and
  every submission has the outcome \<open>sub\<close> (\<open>None\<close>: committed).
\<close>

definition example_env :: "error + string \<Rightarrow> error + collection \<Rightarrow> error option \<Rightarrow> nat env" where
  "example_env ev parsed sub =
     \<lparr> evaluateTransaction = (\<lambda>fn args w. ev),
       submitTransaction = (\<lambda>fn args w. (sub, case sub of None \<Rightarrow> Suc w | Some e \<Rightarrow> w)),
       JSON_parse = (\<lambda>payload. parsed),
       random = (\<lambda>k. 4711 + k),
       readdir = (\<lambda>dirPath. Inr [''first.pem'', ''second.pem'']),
       readFile = (\<lambda>path. Inr ''PEM''),
       path_join = (\<lambda>dirPath file. dirPath @ ''/'' @ file),
       createSsl = (\<lambda>cert. None),
       createPrivateKey = (\<lambda>pem. None),
       channelName = ''mychannel'',
       chaincodeName = ''basic'',
       mspId = ''Org1MSP'',
       cryptoPath = ''org1.example.com'',
       keyDirectoryPath = ''keystore'',
       certDirectoryPath = ''signcerts'',
       tlsCertPath = ''ca.crt'',
       peerEndpoint = ''localhost:7051'',
       peerHostAlias = ''peer0.org1.example.com'' \<rparr>"

text \<open>Which calls on the contract change the ledger.\<close>

fun is_submit :: "event \<Rightarrow> bool" where
  "is_submit (Submit fn args) = True"
| "is_submit (Evaluate fn args) = False"

section \<open>Facts about the string operations\<close>

lemma startsWith_prefix: "startsWith s pat \<longleftrightarrow> prefix pat s"
  by (induction s pat rule: startsWith.induct) auto

lemma indexOf_from_found: "indexOf_from i s pat \<noteq> - 1 \<longleftrightarrow> sublist pat s"
proof (induction i s pat rule: indexOf_from.induct)
  case (1 i pat)
  then show ?case by auto
next
  case (2 i c cs pat)
  show ?case
  proof (cases "startsWith (c # cs) pat")
    case True
    then have "prefix pat (c # cs)" by (simp add: startsWith_prefix)
    then have "sublist pat (c # cs)" by (rule prefix_imp_sublist)
    with True show ?thesis by simp
  next
    case False
    then have np: "\<not> prefix pat (c # cs)" by (simp add: startsWith_prefix)
    have "sublist pat (c # cs) \<longleftrightarrow> sublist pat cs"
      using np by (simp add: sublist_Cons_right)
    with False 2 show ?thesis by simp
  qed
qed

lemma indexOf_found: "indexOf s pat \<noteq> - 1 \<longleftrightarrow> sublist pat s"
  by (simp add: indexOf_def indexOf_from_found)

lemma indexOf_empty: "indexOf s [] = 0"
  by (cases s) (simp_all add: indexOf_def)

section \<open>Facts about the two scans\<close>

lemma vote_scan_skip:
  "\<forall>kb \<in> set pre. \<exists>ow. toString (Owner (snd kb)) = Inr ow \<and> \<not> sublist name ow \<Longrightarrow>
   vote_scan name (pre @ rest) = vote_scan name rest"
proof (induction pre)
  case Nil
  then show ?case by simp
next
  case (Cons kb pre)
  obtain key a where kb: "kb = (key, a)" by (cases kb)
  from Cons.prems obtain ow where ow: "toString (Owner a) = Inr ow" "\<not> sublist name ow"
    by (auto simp: kb)
  from Cons have "vote_scan name (pre @ rest) = vote_scan name rest" by simp
  with ow show ?case by (simp add: kb indexOf_found)
qed

lemma vote_scan_hit:
  "toString (Owner a) = Inr ow \<Longrightarrow> sublist name ow \<Longrightarrow>
   vote_scan name ((key, a) # suf) =
     (case toString (ID a) of Inl e \<Rightarrow> Inl e
      | Inr i \<Rightarrow> Inr (True, plus_one_toString (Size a), i))"
  by (simp add: indexOf_found)

lemma query_scan_skip:
  "\<forall>kb \<in> set pre. \<exists>ow. Owner (snd kb) = JStr ow \<and> \<not> sublist name ow \<Longrightarrow>
   query_scan name (pre @ rest) out = query_scan name rest (out @ map (\<lambda>kb. visit_line (fst kb) (snd kb)) pre)"
proof (induction pre arbitrary: out)
  case Nil
  then show ?case by simp
next
  case (Cons kb pre)
  obtain key a where kb: "kb = (key, a)" by (cases kb)
  from Cons.prems obtain ow where ow: "Owner a = JStr ow" "\<not> sublist name ow"
    by (auto simp: kb)
  from Cons.prems have "\<forall>kb \<in> set pre. \<exists>ow. Owner (snd kb) = JStr ow \<and> \<not> sublist name ow"
    by simp
  from Cons.IH [OF this]
  have "query_scan name (pre @ rest) (out @ [visit_line key a]) =
        query_scan name rest ((out @ [visit_line key a]) @ map (\<lambda>kb. visit_line (fst kb) (snd kb)) pre)" .
  with ow show ?case by (simp add: kb indexOf_found)
qed

lemma query_scan_hit:
  "Owner a = JStr ow \<Longrightarrow> sublist name ow \<Longrightarrow>
   query_scan name ((key, a) # suf) out = (Inr (), out @ [visit_line key a, query_line a])"
  by (simp add: indexOf_found)

section \<open>Facts about the operations\<close>

lemma createAssetWithName_evaluate_fails:
  "evaluateTransaction env ''GetAllAssets'' [] (ledger s) = Inl e \<Longrightarrow>
   createAssetWithName env name s =
     (Inl e, s\<lparr>trace := trace s @ [Evaluate ''GetAllAssets'' []],
               console := console s @ [Log (CHR 0x0A # ''--> Submit Transaction: CreateAsset, creates new asset with ID, Color, Size, Owner and AppraisedValue arguments'')]\<rparr>)"
  by (simp add: createAssetWithName_def evaluate_def console_log_def)

lemma createAssetWithName_parse_fails:
  "evaluateTransaction env ''GetAllAssets'' [] (ledger s) = Inr payload \<Longrightarrow>
   JSON_parse env payload = Inl e \<Longrightarrow>
   createAssetWithName env name s =
     (Inl e, s\<lparr>trace := trace s @ [Evaluate ''GetAllAssets'' []],
               console := console s @ [Log (CHR 0x0A # ''--> Submit Transaction: CreateAsset, creates new asset with ID, Color, Size, Owner and AppraisedValue arguments'')]\<rparr>)"
  by (simp add: createAssetWithName_def evaluate_def console_log_def)

lemma createAssetWithName_scan_fails:
  "evaluateTransaction env ''GetAllAssets'' [] (ledger s) = Inr payload \<Longrightarrow>
   JSON_parse env payload = Inr result \<Longrightarrow> vote_scan name result = Inl e \<Longrightarrow>
   createAssetWithName env name s =
     (Inl e, s\<lparr>trace := trace s @ [Evaluate ''GetAllAssets'' []],
               console := console s @ [Log (CHR 0x0A # ''--> Submit Transaction: CreateAsset, creates new asset with ID, Color, Size, Owner and AppraisedValue arguments'')]\<rparr>)"
  by (simp add: createAssetWithName_def evaluate_def console_log_def)

lemma createAssetWithName_update:
  "evaluateTransaction env ''GetAllAssets'' [] (ledger s) = Inr payload \<Longrightarrow>
   JSON_parse env payload = Inr result \<Longrightarrow> vote_scan name result = Inr (True, sz, i) \<Longrightarrow>
   trace (snd (createAssetWithName env name s)) =
     trace s @ [Evaluate ''GetAllAssets'' [], Submit ''UpdateAsset'' [i, [], sz, name, []]]"
  by (simp add: createAssetWithName_def evaluate_def submit_def console_log_def
      split: prod.splits option.splits)

lemma createAssetWithName_create:
  "evaluateTransaction env ''GetAllAssets'' [] (ledger s) = Inr payload \<Longrightarrow>
   JSON_parse env payload = Inr result \<Longrightarrow> vote_scan name result = Inr (False, sz, i) \<Longrightarrow>
   trace (snd (createAssetWithName env name s)) =
     trace s @ [Evaluate ''GetAllAssets'' [],
                Submit ''CreateAsset''
                  [''asset'' @ number_toString (int (random env (draws s))), [], ''1'', name, []]]"
  by (simp add: createAssetWithName_def evaluate_def submit_def console_log_def new_assetId_def
      split: prod.splits option.splits)

lemma vote_scan_none:
  "\<forall>kb \<in> set recs. \<exists>ow. toString (Owner (snd kb)) = Inr ow \<and> \<not> sublist name ow \<Longrightarrow>
   vote_scan name recs = Inr (False, [], [])"
  using vote_scan_skip [of recs name "[]"] by simp

lemma readAssetByName_result:
  "evaluateTransaction env ''GetAllAssets'' [] (ledger s) = Inr payload \<Longrightarrow>
   JSON_parse env payload = Inr result \<Longrightarrow> query_scan name result [] = (r, lines) \<Longrightarrow>
   readAssetByName env name s =
     (r, s\<lparr>trace := trace s @ [Evaluate ''GetAllAssets'' []],
            console := console s @ Log (CHR 0x0A # ''--> Evaluate Transaction: ReadAsset, function returns asset attributes'') # map Log lines\<rparr>)"
  by (simp add: readAssetByName_def evaluate_def console_log_def)

lemma createAssetWithName_trace_shape:
  "\<exists>subs. trace (snd (createAssetWithName env name s)) =
            trace s @ Evaluate ''GetAllAssets'' [] # subs
        \<and> (subs = [] \<or> (\<exists>fn args. subs = [Submit fn args]))"
proof (cases "evaluateTransaction env ''GetAllAssets'' [] (ledger s)")
  case (Inl e)
  then show ?thesis by (simp add: createAssetWithName_evaluate_fails)
next
  case ev: (Inr payload)
  show ?thesis
  proof (cases "JSON_parse env payload")
    case (Inl e)
    with ev show ?thesis by (simp add: createAssetWithName_parse_fails)
  next
    case pa: (Inr result)
    show ?thesis
    proof (cases "vote_scan name result")
      case (Inl e)
      with ev pa show ?thesis by (simp add: createAssetWithName_scan_fails)
    next
      case (Inr r)
      obtain ex sz i where r: "r = (ex, sz, i)" by (cases r)
      show ?thesis
      proof (cases ex)
        case True
        with Inr r have "vote_scan name result = Inr (True, sz, i)" by simp
        from createAssetWithName_update [OF ev pa this] show ?thesis by simp
      next
        case False
        with Inr r have "vote_scan name result = Inr (False, sz, i)" by simp
        from createAssetWithName_create [OF ev pa this] show ?thesis by simp
      qed
    qed
  qed
qed

lemma createAssetWithName_submit_needs_scan:
  assumes "Submit fn args \<in> set (drop (length (trace s)) (trace (snd (createAssetWithName env name s))))"
  shows "\<exists>payload result r.
           evaluateTransaction env ''GetAllAssets'' [] (ledger s) = Inr payload
         \<and> JSON_parse env payload = Inr result \<and> vote_scan name result = Inr r"
proof (cases "evaluateTransaction env ''GetAllAssets'' [] (ledger s)")
  case (Inl e)
  with assms show ?thesis by (simp add: createAssetWithName_evaluate_fails)
next
  case ev: (Inr payload)
  show ?thesis
  proof (cases "JSON_parse env payload")
    case (Inl e)
    with ev assms show ?thesis by (simp add: createAssetWithName_parse_fails)
  next
    case pa: (Inr result)
    show ?thesis
    proof (cases "vote_scan name result")
      case (Inl e)
      with ev pa assms show ?thesis by (simp add: createAssetWithName_scan_fails)
    next
      case (Inr r)
      with ev pa show ?thesis by blast
    qed
  qed
qed

lemma example_env_evaluate [simp]:
  "evaluateTransaction (example_env ev parsed sub) fn args w = ev"
  by (simp add: example_env_def)

lemma example_env_parse [simp]: "JSON_parse (example_env ev parsed sub) payload = parsed"
  by (simp add: example_env_def)

lemma example_env_random [simp]: "random (example_env ev parsed sub) k = 4711 + k"
  by (simp add: example_env_def)

lemma initial_fields [simp]:
  "trace (initial env w) = []" "draws (initial env w) = 1" "ledger (initial env w) = w"
  "console (initial env w) = []" "exitCode (initial env w) = None"
  "unhandled (initial env w) = []" "client (initial env w) = NotConnected"
  by (simp_all add: initial_def new_assetId_def)

lemma seed_fields:
  "trace (seed env sz owner s) =
     trace s @ [Submit ''CreateAsset''
                  [''asset'' @ number_toString (int (random env (draws s))), [], sz, owner, []]]"
  "draws (seed env sz owner s) = Suc (draws s)"
  "unhandled (seed env sz owner s) = unhandled s"
  "exitCode (seed env sz owner s) = exitCode s"
  "client (seed env sz owner s) = client s"
  "gateway (seed env sz owner s) = gateway s"
  by (simp_all add: seed_def submit_def console_log_def new_assetId_def
      split: prod.splits option.splits)





lemma createAssetWithName_frame:
  "exitCode (snd (createAssetWithName env name s)) = exitCode s
   \<and> client (snd (createAssetWithName env name s)) = client s
   \<and> gateway (snd (createAssetWithName env name s)) = gateway s"
  by (simp add: createAssetWithName_def evaluate_def submit_def console_log_def new_assetId_def Let_def
      split: prod.splits option.splits sum.splits)


lemma readAssetByName_frame:
  "exitCode (snd (readAssetByName env name s)) = exitCode s
   \<and> client (snd (readAssetByName env name s)) = client s
   \<and> gateway (snd (readAssetByName env name s)) = gateway s"
  by (simp add: readAssetByName_def evaluate_def console_log_def Let_def
      split: prod.splits option.splits sum.splits)


lemma getAllAssets_frame:
  "exitCode (snd (getAllAssets env s)) = exitCode s
   \<and> client (snd (getAllAssets env s)) = client s
   \<and> gateway (snd (getAllAssets env s)) = gateway s"
  by (simp add: getAllAssets_def evaluate_def console_log_def Let_def
      split: prod.splits option.splits sum.splits)


lemma initLedger_frame:
  "exitCode (snd (initLedger env s)) = exitCode s
   \<and> client (snd (initLedger env s)) = client s
   \<and> gateway (snd (initLedger env s)) = gateway s"
  by (simp add: initLedger_def Let_def seed_fields console_log_def)


lemma detached_frame:
  assumes "\<And>s. exitCode (snd (task s)) = exitCode s \<and> client (snd (task s)) = client s
              \<and> gateway (snd (task s)) = gateway s"
  shows "exitCode (detached task s) = exitCode s \<and> client (detached task s) = client s
       \<and> gateway (detached task s) = gateway s"
  using assms [of s] by (cases "task s") (auto simp: detached_def split: sum.splits)

lemma detached_log_frame:
  assumes "\<And>s. exitCode (snd (task s)) = exitCode s \<and> client (snd (task s)) = client s
              \<and> gateway (snd (task s)) = gateway s"
  shows "exitCode (detached task (console_log x s)) = exitCode s
       \<and> client (detached task (console_log x s)) = client s
       \<and> gateway (detached task (console_log x s)) = gateway s"
  using detached_frame [of task "console_log x s", OF assms] by (simp add: console_log_def)

lemma detached_rejected:
  "task s = (Inl e, s1) \<Longrightarrow> detached task s = s1\<lparr>unhandled := unhandled s1 @ [e]\<rparr>"
  by (simp add: detached_def)



lemma run_query_frame:
  "exitCode (run_query env val s) = exitCode s \<and> client (run_query env val s) = client s
   \<and> gateway (run_query env val s) = gateway s"
  by (simp add: run_query_def detached_log_frame readAssetByName_frame)

lemma run_vote_frame:
  "exitCode (run_vote env val s) = exitCode s \<and> client (run_vote env val s) = client s
   \<and> gateway (run_vote env val s) = gateway s"
  by (simp add: run_vote_def detached_log_frame createAssetWithName_frame)





lemma callback_awaited:
  "callback env val s =
     (case (if indexOf val ''getAllVotes=true'' \<noteq> - 1
            then getAllAssets env (run_vote env val (run_query env val s))
            else (Inr (), run_vote env val (run_query env val s))) of
        (Inl e, s3) \<Rightarrow> (Inl e, s3)
      | (Inr u, s3) \<Rightarrow>
          if indexOf val ''initialize=true'' \<noteq> - 1 then initLedger env s3 else (Inr (), s3))"
  by (simp add: callback_def Let_def)

lemma callback_frame:
  "exitCode (snd (callback env val s)) = exitCode s \<and> client (snd (callback env val s)) = client s
   \<and> gateway (snd (callback env val s)) = gateway s"
proof -
  define s2 where "s2 = run_vote env val (run_query env val s)"
  have 2: "exitCode s2 = exitCode s \<and> client s2 = client s \<and> gateway s2 = gateway s"
    by (simp add: s2_def run_vote_frame run_query_frame)
  have 3: "exitCode (snd (callback env val s)) = exitCode s2
         \<and> client (snd (callback env val s)) = client s2
         \<and> gateway (snd (callback env val s)) = gateway s2"
    using getAllAssets_frame [of env s2] initLedger_frame [of env s2]
      initLedger_frame [of env "snd (getAllAssets env s2)"]
    unfolding callback_awaited s2_def [symmetric]
    by (cases "getAllAssets env s2") (auto split: sum.splits)
  from 2 3 show ?thesis by simp
qed




lemma forEach_frame:
  "exitCode (forEach env argv s) = exitCode s \<and> client (forEach env argv s) = client s
   \<and> gateway (forEach env argv s) = gateway s"
proof (induction argv arbitrary: s)
  case Nil
  then show ?case by simp
next
  case (Cons val argv)
  have "exitCode (detached (callback env val) s) = exitCode s
      \<and> client (detached (callback env val) s) = client s
      \<and> gateway (detached (callback env val) s) = gateway s"
    by (rule detached_frame) (rule callback_frame)
  with Cons show ?case by simp
qed



lemma main_exitCode: "exitCode (snd (main env argv s)) = exitCode s"
  by (simp add: main_def Let_def newGrpcConnection_def displayInputParameters_def connect_def
      forEach_frame split: sum.splits option.splits)

lemma main_client:
  "client (snd (main env argv s)) = client s \<or> client (snd (main env argv s)) = Connected"
  by (simp add: main_def Let_def newGrpcConnection_def displayInputParameters_def connect_def
      forEach_frame split: sum.splits option.splits)


lemma main_gateway:
  "fst (main env argv s) = Inr u \<Longrightarrow> gateway (snd (main env argv s)) = Some gateway_options"
  by (auto simp: main_def Let_def connect_def forEach_frame split: sum.splits prod.splits)


lemma program_client: "client (program env argv w) \<noteq> Released"
  using main_client [of env argv "initial env w"]
  by (cases "main env argv (initial env w)") (auto simp: program_def console_log_def split: sum.splits)

lemma example_env_setup:
  "newGrpcConnection (example_env ev parsed sub) s = (Inr (), s\<lparr>client := Connected\<rparr>)"
  "newIdentity (example_env ev parsed sub) = Inr ''PEM''"
  "newSigner (example_env ev parsed sub) = Inr ''PEM''"
  by (simp_all add: newGrpcConnection_def newIdentity_def newSigner_def getFirstDirFileName_def
      example_env_def)

lemma example_env_main:
  "main (example_env ev parsed sub) argv s =
     (Inr (), forEach (example_env ev parsed sub) argv
        (connect gateway_options
          ((displayInputParameters (example_env ev parsed sub) s)\<lparr>client := Connected\<rparr>)))"
  by (simp add: main_def Let_def example_env_setup del: forEach.simps)



section \<open>Facts about the example data\<close>

lemma safe_integer_value [simp]:
  "- (2 ^ 53) < n \<Longrightarrow> n < 2 ^ 53 \<Longrightarrow> Rep_safe_integer (Abs_safe_integer n) = n"
  by (simp add: Abs_safe_integer_inverse)

lemma small_numbers:
  "number_toString 0 = ''0''" "number_toString 1 = ''1''" "number_toString 2 = ''2''"
  "number_toString 3 = ''3''" "number_toString 4 = ''4''" "number_toString 5 = ''5''"
  by (simp_all add: number_toString_def nat_to_string.simps digit_char_def)

lemma example_sizes:
  "plus_one_toString (Size asset_Tomas) = ''5''"
  "plus_one_toString (Size asset_Cat) = ''3''"
  "plus_one_toString (Size asset_Cat_string) = ''21''"
  by (simp_all add: asset_Tomas_def asset_Cat_def asset_Cat_string_def small_numbers)

lemma example_lines:
  "visit_line ''0'' asset_Tomas = ''0 : Tomas''"
  "visit_line ''1'' asset_Tomas = ''1 : Tomas''"
  "visit_line ''0'' asset_Cat = ''0 : Cat''"
  "visit_line ''0'' asset_Cat_string = ''0 : Cat''"
  "query_line asset_Tomas = ''Query Result: 0  asset1 Tomas 4''"
  "query_line asset_Cat_string = ''Query Result:   asset7 Cat 2''"
  by (simp_all add: visit_line_def query_line_def asset_Tomas_def asset_Cat_def asset_Cat_string_def
      small_numbers)

lemma vote_number_size_example:
  "trace (snd (createAssetWithName
       (example_env (Inr ''payload'') (Inr [(''0'', asset_Cat)]) None) ''Cat''
       (initial (example_env (Inr ''payload'') (Inr [(''0'', asset_Cat)]) None) 0))) =
     [Evaluate ''GetAllAssets'' [], Submit ''UpdateAsset'' [''asset7'', '''', ''3'', ''Cat'', '''']]"
proof -
  have sc: "vote_scan ''Cat'' [(''0'', asset_Cat)] = Inr (True, ''3'', ''asset7'')"
    using example_sizes(2) by (simp add: asset_Cat_def indexOf_def)
  show ?thesis
    using createAssetWithName_update [OF _ _ sc,
        of "example_env (Inr ''payload'') (Inr [(''0'', asset_Cat)]) None"
           "initial (example_env (Inr ''payload'') (Inr [(''0'', asset_Cat)]) None) 0"
           "''payload''"]
    by simp
qed

lemma empty_name_first_record:
  assumes "evaluateTransaction env ''GetAllAssets'' [] (ledger s) = Inr payload"
    and "JSON_parse env payload = Inr ((key, a) # rest)"
    and "Owner a = JStr ow" and "ID a = JStr i"
  shows "trace (snd (createAssetWithName env [] s)) =
           trace s @ [Evaluate ''GetAllAssets'' [],
                      Submit ''UpdateAsset'' [i, [], plus_one_toString (Size a), [], []]]"
    and "readAssetByName env [] s =
           (Inr (), s\<lparr>trace := trace s @ [Evaluate ''GetAllAssets'' []],
                       console := console s @
                         [Log (CHR 0x0A # ''--> Evaluate Transaction: ReadAsset, function returns asset attributes''),
                          Log (visit_line key a), Log (query_line a)]\<rparr>)"
proof -
  have e: "sublist [] ow" by simp
  have "toString (Owner a) = Inr ow" using assms(3) by simp
  then have "vote_scan [] ((key, a) # rest) =
      (case toString (ID a) of Inl e \<Rightarrow> Inl e
       | Inr i \<Rightarrow> Inr (True, plus_one_toString (Size a), i))"
    using e by (rule vote_scan_hit)
  then have "vote_scan [] ((key, a) # rest) = Inr (True, plus_one_toString (Size a), i)"
    using assms(4) by simp
  with assms(1,2) show "trace (snd (createAssetWithName env [] s)) =
           trace s @ [Evaluate ''GetAllAssets'' [],
                      Submit ''UpdateAsset'' [i, [], plus_one_toString (Size a), [], []]]"
    by (rule createAssetWithName_update)
  have "query_scan [] ((key, a) # rest) [] = (Inr (), [] @ [visit_line key a, query_line a])"
    using assms(3) e by (rule query_scan_hit)
  with assms(1,2) have "readAssetByName env [] s =
           (Inr (), s\<lparr>trace := trace s @ [Evaluate ''GetAllAssets'' []],
                       console := console s @
                         Log (CHR 0x0A # ''--> Evaluate Transaction: ReadAsset, function returns asset attributes'') #
                         map Log ([] @ [visit_line key a, query_line a])\<rparr>)"
    by (rule readAssetByName_result)
  then show "readAssetByName env [] s =
           (Inr (), s\<lparr>trace := trace s @ [Evaluate ''GetAllAssets'' []],
                       console := console s @
                         [Log (CHR 0x0A # ''--> Evaluate Transaction: ReadAsset, function returns asset attributes''),
                          Log (visit_line key a), Log (query_line a)]\<rparr>)"
    by simp
qed

section \<open>The scan: first match by substring\<close>

text \<open>
  Claim C2. A vote and a query scan the decoded collection in its order. A record matches
  when the candidate name occurs in its owner string as a contiguous run of the same
  characters, so the match is case-sensitive and need not be the whole owner. The first
  matching record decides what the invocation does: the vote submits \<open>UpdateAsset\<close> for
  that record, the query logs the keys up to it and then that record. The records after
  it are not looked at: the result is the same for every remainder \<open>suf\<close>.
\<close>

theorem first_match_wins:
  assumes "evaluateTransaction env ''GetAllAssets'' [] (ledger s) = Inr payload"
    and "JSON_parse env payload = Inr (pre @ (key, a) # suf)"
    and "\<forall>kb \<in> set pre. \<exists>ow. Owner (snd kb) = JStr ow \<and> \<not> sublist name ow"
    and "Owner a = JStr ow" and "sublist name ow" and "ID a = JStr i"
  shows "trace (snd (createAssetWithName env name s)) =
           trace s @ [Evaluate ''GetAllAssets'' [],
                      Submit ''UpdateAsset'' [i, '''', plus_one_toString (Size a), name, '''']]
       \<and> readAssetByName env name s =
           (Inr (),
            s\<lparr>trace := trace s @ [Evaluate ''GetAllAssets'' []],
              console := console s @
                Log (CHR 0x0A # ''--> Evaluate Transaction: ReadAsset, function returns asset attributes'') #
                map Log (map (\<lambda>kb. visit_line (fst kb) (snd kb)) pre @
                         [visit_line key a, query_line a])\<rparr>)"
proof -
  from assms(3) have "\<forall>kb \<in> set pre. \<exists>ow. toString (Owner (snd kb)) = Inr ow \<and> \<not> sublist name ow"
    by auto
  then have "vote_scan name (pre @ (key, a) # suf) = vote_scan name ((key, a) # suf)"
    by (rule vote_scan_skip)
  also have "\<dots> = (case toString (ID a) of Inl e \<Rightarrow> Inl e
                   | Inr i \<Rightarrow> Inr (True, plus_one_toString (Size a), i))"
    using assms(4,5) by (intro vote_scan_hit) simp_all
  also have "\<dots> = Inr (True, plus_one_toString (Size a), i)"
    using assms(6) by simp
  finally have "vote_scan name (pre @ (key, a) # suf) = Inr (True, plus_one_toString (Size a), i)" .
  with assms(1,2) have v: "trace (snd (createAssetWithName env name s)) =
      trace s @ [Evaluate ''GetAllAssets'' [],
                 Submit ''UpdateAsset'' [i, [], plus_one_toString (Size a), name, []]]"
    by (rule createAssetWithName_update)
  have "query_scan name (pre @ (key, a) # suf) [] =
          query_scan name ((key, a) # suf) ([] @ map (\<lambda>kb. visit_line (fst kb) (snd kb)) pre)"
    using assms(3) by (rule query_scan_skip)
  also have "\<dots> = (Inr (), ([] @ map (\<lambda>kb. visit_line (fst kb) (snd kb)) pre) @
                            [visit_line key a, query_line a])"
    using assms(4,5) by (rule query_scan_hit)
  finally have "query_scan name (pre @ (key, a) # suf) [] =
      (Inr (), map (\<lambda>kb. visit_line (fst kb) (snd kb)) pre @ [visit_line key a, query_line a])"
    by simp
  with assms(1,2) have q: "readAssetByName env name s =
      (Inr (),
       s\<lparr>trace := trace s @ [Evaluate ''GetAllAssets'' []],
         console := console s @
           Log (CHR 0x0A # ''--> Evaluate Transaction: ReadAsset, function returns asset attributes'') #
           map Log (map (\<lambda>kb. visit_line (fst kb) (snd kb)) pre @
                    [visit_line key a, query_line a])\<rparr>)"
    by (rule readAssetByName_result)
  from v q show ?thesis by simp
qed

theorem first_match_wins_witness:
  "trace (snd (createAssetWithName
       (example_env (Inr ''payload'') (Inr [(''0'', asset_Tomas), (''1'', asset_Tom)]) None) ''Tom''
       (initial (example_env (Inr ''payload'') (Inr [(''0'', asset_Tomas), (''1'', asset_Tom)]) None) 0))) =
     [Evaluate ''GetAllAssets'' [], Submit ''UpdateAsset'' [''asset1'', '''', ''5'', ''Tom'', '''']]
   \<and> console (snd (readAssetByName
       (example_env (Inr ''payload'') (Inr [(''0'', asset_Tomas), (''1'', asset_Tom)]) None) ''Tom''
       (initial (example_env (Inr ''payload'') (Inr [(''0'', asset_Tomas), (''1'', asset_Tom)]) None) 0))) =
     [Log (CHR 0x0A # ''--> Evaluate Transaction: ReadAsset, function returns asset attributes''),
      Log ''0 : Tomas'', Log ''Query Result: 0  asset1 Tomas 4'']
   \<and> trace (snd (createAssetWithName
       (example_env (Inr ''payload'')
          (Inr [(''0'', asset_Cat), (''1'', asset_Tomas), (''2'', asset_Tom)]) None) ''Tom''
       (initial (example_env (Inr ''payload'')
          (Inr [(''0'', asset_Cat), (''1'', asset_Tomas), (''2'', asset_Tom)]) None) 0))) =
     [Evaluate ''GetAllAssets'' [], Submit ''UpdateAsset'' [''asset1'', '''', ''5'', ''Tom'', '''']]
   \<and> trace (snd (createAssetWithName
       (example_env (Inr ''payload'') (Inr [(''0'', asset_Tomas), (''1'', asset_Tom)]) None) ''tom''
       (initial (example_env (Inr ''payload'') (Inr [(''0'', asset_Tomas), (''1'', asset_Tom)]) None) 0))) =
     [Evaluate ''GetAllAssets'' [], Submit ''CreateAsset'' [''asset4712'', '''', ''1'', ''tom'', '''']]"
proof -
  let ?E1 = "example_env (Inr ''payload'') (Inr [(''0'', asset_Tomas), (''1'', asset_Tom)]) None"
  let ?E2 = "example_env (Inr ''payload'')
          (Inr [(''0'', asset_Cat), (''1'', asset_Tomas), (''2'', asset_Tom)]) None"
  have y: "sublist ''Tom'' ''Tomas''" by (simp add: indexOf_found [symmetric] indexOf_def)
  have n: "\<not> sublist ''Tom'' ''Cat''" "\<not> sublist ''tom'' ''Tomas''" "\<not> sublist ''tom'' ''Tom''"
    by (simp_all add: indexOf_found [symmetric] indexOf_def)
  have o: "Owner asset_Tomas = JStr ''Tomas''" and i: "ID asset_Tomas = JStr ''asset1''"
    by (simp_all add: asset_Tomas_def)
  have p1: "\<forall>kb \<in> set ([] :: collection). \<exists>ow. Owner (snd kb) = JStr ow \<and> \<not> sublist ''Tom'' ow"
    by simp
  have p2: "\<forall>kb \<in> set [(''0'', asset_Cat)]. \<exists>ow. Owner (snd kb) = JStr ow \<and> \<not> sublist ''Tom'' ow"
    using n by (simp add: asset_Cat_def)
  have ev1: "evaluateTransaction ?E1 ''GetAllAssets'' [] (ledger (initial ?E1 0)) = Inr ''payload''"
    by simp
  have ev2: "evaluateTransaction ?E2 ''GetAllAssets'' [] (ledger (initial ?E2 0)) = Inr ''payload''"
    by simp
  have pa1: "JSON_parse ?E1 ''payload'' = Inr ([] @ (''0'', asset_Tomas) # [(''1'', asset_Tom)])"
    by simp
  have pa2: "JSON_parse ?E2 ''payload'' =
      Inr ([(''0'', asset_Cat)] @ (''1'', asset_Tomas) # [(''2'', asset_Tom)])"
    by simp
  note a = first_match_wins [OF ev1 pa1 p1 o y i]
  note b = first_match_wins [OF ev2 pa2 p2 o y i]
  have c: "trace (snd (createAssetWithName ?E1 ''tom'' (initial ?E1 0))) =
     [Evaluate ''GetAllAssets'' [], Submit ''CreateAsset'' [''asset4712'', '''', ''1'', ''tom'', '''']]"
  proof -
    have "\<forall>kb \<in> set [(''0'', asset_Tomas), (''1'', asset_Tom)].
            \<exists>ow. toString (Owner (snd kb)) = Inr ow \<and> \<not> sublist ''tom'' ow"
      using n by (simp add: asset_Tomas_def asset_Tom_def)
    then have "vote_scan ''tom'' [(''0'', asset_Tomas), (''1'', asset_Tom)] = Inr (False, [], [])"
      by (rule vote_scan_none)
    moreover have "JSON_parse ?E1 ''payload'' = Inr [(''0'', asset_Tomas), (''1'', asset_Tom)]"
      by simp
    moreover have r: "number_toString (int (4711 + 1)) = ''4712''"
      by (simp add: number_toString_def nat_to_string.simps digit_char_def)
    ultimately show ?thesis
      using createAssetWithName_create [OF ev1, of "[(''0'', asset_Tomas), (''1'', asset_Tom)]" "''tom''" "[]" "[]"]
      by simp
  qed
  from a b c show ?thesis
    by (simp add: example_sizes example_lines)
qed

section \<open>The vote\<close>

text \<open>
  Claim C1 says that a vote for a candidate whose record has the size \<open>"2"\<close> submits the
  size \<open>"3"\<close>. The doc comment of \<open>createAssetWithName\<close> promises to add one vote, and the
  code computes \<open>(Size + 1).toString()\<close> with no conversion to a number. On the record
  whose decoded \<open>Size\<close> is the string \<open>2\<close> the operator \<open>+\<close> concatenates, and the vote
  submits the size \<open>21\<close>, not \<open>3\<close>.
\<close>

theorem vote_string_size_counterexample:
  "trace (snd (createAssetWithName
       (example_env (Inr ''payload'') (Inr [(''0'', asset_Cat_string)]) None) ''Cat''
       (initial (example_env (Inr ''payload'') (Inr [(''0'', asset_Cat_string)]) None) 0))) =
     [Evaluate ''GetAllAssets'' [], Submit ''UpdateAsset'' [''asset7'', '''', ''21'', ''Cat'', '''']]
   \<and> trace (snd (createAssetWithName
       (example_env (Inr ''payload'') (Inr [(''0'', asset_Cat_string)]) None) ''Cat''
       (initial (example_env (Inr ''payload'') (Inr [(''0'', asset_Cat_string)]) None) 0))) \<noteq>
     [Evaluate ''GetAllAssets'' [], Submit ''UpdateAsset'' [''asset7'', '''', ''3'', ''Cat'', '''']]"
proof -
  have sc: "vote_scan ''Cat'' [(''0'', asset_Cat_string)] = Inr (True, ''21'', ''asset7'')"
    by (simp add: asset_Cat_string_def indexOf_def)
  have "trace (snd (createAssetWithName
       (example_env (Inr ''payload'') (Inr [(''0'', asset_Cat_string)]) None) ''Cat''
       (initial (example_env (Inr ''payload'') (Inr [(''0'', asset_Cat_string)]) None) 0))) =
     [Evaluate ''GetAllAssets'' [], Submit ''UpdateAsset'' [''asset7'', '''', ''21'', ''Cat'', '''']]"
    using createAssetWithName_update [OF _ _ sc,
        of "example_env (Inr ''payload'') (Inr [(''0'', asset_Cat_string)]) None"
           "initial (example_env (Inr ''payload'') (Inr [(''0'', asset_Cat_string)]) None) 0"
           "''payload''"]
    by simp
  then show ?thesis by simp
qed

text \<open>
  Claim C3. When the candidate name occurs in the owner of no record, the vote makes
  exactly two calls on the contract: the evaluation of \<open>GetAllAssets\<close> and one submission
  of \<open>CreateAsset\<close> with the newly drawn identifier, size \<open>1\<close>, the candidate name as
  owner, and empty colour and appraised value. No \<open>UpdateAsset\<close> is submitted.
\<close>

theorem vote_creates_when_unmatched:
  assumes "evaluateTransaction env ''GetAllAssets'' [] (ledger s) = Inr payload"
    and "JSON_parse env payload = Inr result"
    and "\<forall>kb \<in> set result. \<exists>ow. toString (Owner (snd kb)) = Inr ow \<and> \<not> sublist name ow"
  shows "trace (snd (createAssetWithName env name s)) =
           trace s @ [Evaluate ''GetAllAssets'' [],
                      Submit ''CreateAsset''
                        [''asset'' @ number_toString (int (random env (draws s))), '''', ''1'', name, '''']]"
proof -
  from assms(3) have "vote_scan name result = Inr (False, [], [])"
    by (rule vote_scan_none)
  with assms(1,2) show ?thesis by (rule createAssetWithName_create)
qed

theorem vote_creates_when_unmatched_witness:
  "trace (snd (createAssetWithName
       (example_env (Inr ''payload'') (Inr [(''0'', asset_Tom), (''1'', asset_Cat)]) None) ''Dog''
       (initial (example_env (Inr ''payload'') (Inr [(''0'', asset_Tom), (''1'', asset_Cat)]) None) 0))) =
     [Evaluate ''GetAllAssets'' [], Submit ''CreateAsset'' [''asset4712'', '''', ''1'', ''Dog'', '''']]"
proof -
  have n: "\<not> sublist ''Dog'' ''Tom''" "\<not> sublist ''Dog'' ''Cat''"
    by (simp_all add: indexOf_found [symmetric] indexOf_def)
  have p: "\<forall>kb \<in> set [(''0'', asset_Tom), (''1'', asset_Cat)].
             \<exists>ow. toString (Owner (snd kb)) = Inr ow \<and> \<not> sublist ''Dog'' ow"
    using n by (simp add: asset_Tom_def asset_Cat_def)
  have pa: "JSON_parse (example_env (Inr ''payload'') (Inr [(''0'', asset_Tom), (''1'', asset_Cat)]) None)
      ''payload'' = Inr [(''0'', asset_Tom), (''1'', asset_Cat)]"
    by simp
  have ev: "evaluateTransaction (example_env (Inr ''payload'') (Inr [(''0'', asset_Tom), (''1'', asset_Cat)]) None)
      ''GetAllAssets'' []
      (ledger (initial (example_env (Inr ''payload'') (Inr [(''0'', asset_Tom), (''1'', asset_Cat)]) None) 0))
      = Inr ''payload''"
    by simp
  have r: "number_toString (int (4711 + 1)) = ''4712''"
    by (simp add: number_toString_def nat_to_string.simps digit_char_def)
  from vote_creates_when_unmatched [OF ev pa p] r show ?thesis by simp
qed

text \<open>
  Claim C10 says that with the empty string as candidate name the first record of a
  non-empty collection matches, so that the vote increments the count of the first record
  and overwrites its owner with the empty string, and the query logs the first record.
  The first record does match, whatever its owner string is (\<open>empty_name_first_record\<close>).
  The size submitted is again \<open>(Size + 1).toString()\<close>: on the record whose decoded
  \<open>Size\<close> is the string \<open>2\<close> it is \<open>21\<close>, which is no increment. This is the missing
  conversion of C1.
\<close>

theorem empty_name_vote_on_string_size:
  "trace (snd (createAssetWithName
       (example_env (Inr ''payload'') (Inr [(''0'', asset_Cat_string), (''1'', asset_Tom)]) None) ''''
       (initial (example_env (Inr ''payload'') (Inr [(''0'', asset_Cat_string), (''1'', asset_Tom)]) None) 0))) =
     [Evaluate ''GetAllAssets'' [], Submit ''UpdateAsset'' [''asset7'', '''', ''21'', '''', '''']]
   \<and> console (snd (readAssetByName
       (example_env (Inr ''payload'') (Inr [(''0'', asset_Cat_string), (''1'', asset_Tom)]) None) ''''
       (initial (example_env (Inr ''payload'') (Inr [(''0'', asset_Cat_string), (''1'', asset_Tom)]) None) 0))) =
     [Log (CHR 0x0A # ''--> Evaluate Transaction: ReadAsset, function returns asset attributes''),
      Log ''0 : Cat'', Log ''Query Result:   asset7 Cat 2'']"
proof -
  let ?E = "example_env (Inr ''payload'') (Inr [(''0'', asset_Cat_string), (''1'', asset_Tom)]) None"
  have ev: "evaluateTransaction ?E ''GetAllAssets'' [] (ledger (initial ?E 0)) = Inr ''payload''"
    by simp
  have pa: "JSON_parse ?E ''payload'' = Inr ((''0'', asset_Cat_string) # [(''1'', asset_Tom)])"
    by simp
  have o: "Owner asset_Cat_string = JStr ''Cat''" and i: "ID asset_Cat_string = JStr ''asset7''"
    by (simp_all add: asset_Cat_string_def)
  from empty_name_first_record [OF ev pa o i] show ?thesis
    by (simp add: example_sizes example_lines)
qed

text \<open>
  Claim C6. Every vote first evaluates \<open>GetAllAssets\<close> and makes at most one submission,
  after it; a submission is made only when the evaluation, the decoding and the scan have
  all returned a result; and when the evaluation or the decoding fails, the vote fails
  with that error, submits nothing and leaves the ledger as it was.
\<close>

theorem scan_precedes_submit:
  "(\<exists>subs. trace (snd (createAssetWithName env name s)) =
             trace s @ Evaluate ''GetAllAssets'' [] # subs
          \<and> (subs = [] \<or> (\<exists>fn args. subs = [Submit fn args])))
   \<and> ((\<exists>fn args. Submit fn args \<in>
          set (drop (length (trace s)) (trace (snd (createAssetWithName env name s))))) \<longrightarrow>
        (\<exists>payload result r.
           evaluateTransaction env ''GetAllAssets'' [] (ledger s) = Inr payload
         \<and> JSON_parse env payload = Inr result \<and> vote_scan name result = Inr r))
   \<and> (evaluateTransaction env ''GetAllAssets'' [] (ledger s) = Inl e
        \<or> (evaluateTransaction env ''GetAllAssets'' [] (ledger s) = Inr payload
           \<and> JSON_parse env payload = Inl e) \<longrightarrow>
        fst (createAssetWithName env name s) = Inl e
      \<and> ledger (snd (createAssetWithName env name s)) = ledger s
      \<and> trace (snd (createAssetWithName env name s)) = trace s @ [Evaluate ''GetAllAssets'' []])"
proof (intro conjI impI)
  show "\<exists>subs. trace (snd (createAssetWithName env name s)) =
             trace s @ Evaluate ''GetAllAssets'' [] # subs
          \<and> (subs = [] \<or> (\<exists>fn args. subs = [Submit fn args]))"
    by (rule createAssetWithName_trace_shape)
next
  assume "\<exists>fn args. Submit fn args \<in>
          set (drop (length (trace s)) (trace (snd (createAssetWithName env name s))))"
  then show "\<exists>payload result r.
           evaluateTransaction env ''GetAllAssets'' [] (ledger s) = Inr payload
         \<and> JSON_parse env payload = Inr result \<and> vote_scan name result = Inr r"
    using createAssetWithName_submit_needs_scan by blast
next
  assume a: "evaluateTransaction env ''GetAllAssets'' [] (ledger s) = Inl e
        \<or> (evaluateTransaction env ''GetAllAssets'' [] (ledger s) = Inr payload
           \<and> JSON_parse env payload = Inl e)"
  then show "fst (createAssetWithName env name s) = Inl e"
    by (auto simp: createAssetWithName_evaluate_fails createAssetWithName_parse_fails)
  from a show "ledger (snd (createAssetWithName env name s)) = ledger s"
    by (auto simp: createAssetWithName_evaluate_fails createAssetWithName_parse_fails)
  from a show "trace (snd (createAssetWithName env name s)) = trace s @ [Evaluate ''GetAllAssets'' []]"
    by (auto simp: createAssetWithName_evaluate_fails createAssetWithName_parse_fails)
qed

theorem scan_precedes_submit_witness:
  "fst (createAssetWithName (example_env (Inr ''{'') (Inl SyntaxError) None) ''Tom''
          (initial (example_env (Inr ''{'') (Inl SyntaxError) None) 5)) = Inl SyntaxError
   \<and> ledger (snd (createAssetWithName (example_env (Inr ''{'') (Inl SyntaxError) None) ''Tom''
          (initial (example_env (Inr ''{'') (Inl SyntaxError) None) 5))) = 5
   \<and> trace (snd (createAssetWithName (example_env (Inr ''{'') (Inl SyntaxError) None) ''Tom''
          (initial (example_env (Inr ''{'') (Inl SyntaxError) None) 5))) = [Evaluate ''GetAllAssets'' []]"
  using scan_precedes_submit [of "example_env (Inr ''{'') (Inl SyntaxError) None" "''Tom''"
      "initial (example_env (Inr ''{'') (Inl SyntaxError) None) 5" SyntaxError "''{''"]
  by simp

section \<open>Initialization\<close>



section \<open>The credential loader\<close>

text \<open>
  Claim C8. When the directory can be listed and no name in the listing is empty (a file
  system delivers no empty names), \<open>getFirstDirFileName\<close> returns the path of the first
  name in the listing, joined to the directory path, and it fails, with the error
  \<open>No files in directory\<close>, exactly when the listing is empty.
\<close>

theorem getFirstDirFileName_first:
  assumes "readdir env dirPath = Inr files" and "\<forall>f \<in> set files. f \<noteq> []"
  shows "getFirstDirFileName env dirPath =
           (case files of
              [] \<Rightarrow> Inl (Error (''No files in directory: '' @ dirPath))
            | file # rest \<Rightarrow> Inr (path_join env dirPath file))
       \<and> ((\<exists>e. getFirstDirFileName env dirPath = Inl e) \<longleftrightarrow> files = [])"
  using assms by (cases files) (simp_all add: getFirstDirFileName_def)

theorem getFirstDirFileName_first_witness:
  "getFirstDirFileName (example_env (Inr ''payload'') (Inr []) None) ''keystore'' =
     Inr ''keystore/first.pem''"
proof -
  have r: "readdir (example_env (Inr ''payload'') (Inr []) None) ''keystore'' =
      Inr [''first.pem'', ''second.pem'']"
    by (simp add: example_env_def)
  have n: "\<forall>f \<in> set [''first.pem'', ''second.pem'']. f \<noteq> []" by simp
  from getFirstDirFileName_first [OF r n] show ?thesis by (simp add: example_env_def)
qed

section \<open>The gateway session and its timeouts\<close>

text \<open>
  Claim C9. Whenever \<open>main\<close> gets as far as the dispatch, the gateway session it
  connected holds the four timeout options, each a function of the time \<open>now\<close> at which
  the call starts: evaluate five seconds later, endorse fifteen, submit five, and commit
  status sixty. The operations leave the session as it is.
\<close>

theorem gateway_deadlines:
  assumes "fst (main env argv (initial env w)) = Inr ()"
  shows "\<exists>options. gateway (program env argv w) = Some options
       \<and> (\<forall>now. deadline (evaluateOptions options now) = now + seconds 5
              \<and> deadline (endorseOptions options now) = now + seconds 15
              \<and> deadline (submitOptions options now) = now + seconds 5
              \<and> deadline (commitStatusOptions options now) = now + seconds 60)"
proof -
  from assms have "gateway (snd (main env argv (initial env w))) = Some gateway_options"
    by (rule main_gateway)
  moreover from assms have "program env argv w = snd (main env argv (initial env w))"
    by (cases "main env argv (initial env w)") (simp add: program_def)
  ultimately have "gateway (program env argv w) = Some gateway_options" by simp
  then show ?thesis by (simp add: gateway_options_def seconds_def)
qed

theorem gateway_deadlines_witness:
  "\<exists>options. gateway (program (example_env (Inr ''payload'') (Inr []) None)
                  [''node'', ''app.js'', ''vote=Tom''] 0) = Some options
       \<and> (\<forall>now. deadline (evaluateOptions options now) = now + seconds 5
              \<and> deadline (endorseOptions options now) = now + seconds 15
              \<and> deadline (submitOptions options now) = now + seconds 5
              \<and> deadline (commitStatusOptions options now) = now + seconds 60)"
proof -
  have "fst (main (example_env (Inr ''payload'') (Inr []) None) [''node'', ''app.js'', ''vote=Tom'']
          (initial (example_env (Inr ''payload'') (Inr []) None) 0)) = Inr ()"
    by (simp add: example_env_main del: forEach.simps)
  then show ?thesis by (rule gateway_deadlines)
qed

section \<open>The entry point: failures and the connection\<close>



text \<open>
  Claim C5, as amended. No run of the program releases the gRPC client: the \<open>finally\<close>
  block of \<open>main\<close> is empty and nothing else closes the gateway or the client. After
  every run the client is connected if \<open>newGrpcConnection\<close> succeeded, and was never
  created otherwise.
\<close>

theorem client_never_released:
  "client (program env argv w) \<noteq> Released
   \<and> (client (program env argv w) = Connected \<longleftrightarrow>
        (\<exists>u s. newGrpcConnection env (displayInputParameters env (initial env w)) = (Inr u, s)))"
proof -
  have "client (snd (main env argv (initial env w))) = Connected \<longleftrightarrow>
        (\<exists>u s. newGrpcConnection env (displayInputParameters env (initial env w)) = (Inr u, s))"
    by (auto simp: main_def Let_def newGrpcConnection_def displayInputParameters_def connect_def
        forEach_frame split: sum.splits option.splits)
  moreover have "client (program env argv w) = client (snd (main env argv (initial env w)))"
    by (cases "main env argv (initial env w)") (auto simp: program_def console_log_def split: sum.splits)
  ultimately show ?thesis using program_client [of env argv w] by simp
qed

text \<open>
  The statement of C5 in its original form asks for exactly one release. In the run
  \<open>node app.js vote=Tom\<close> with a working contract the client is still connected when
  the program has finished.
\<close>

theorem no_release_counterexample:
  "client (program (example_env (Inr ''payload'') (Inr []) None) [''node'', ''app.js'', ''vote=Tom''] 0)
     = Connected
   \<and> client (program (example_env (Inr ''payload'') (Inr []) None) [''node'', ''app.js'', ''vote=Tom''] 0)
     \<noteq> Released"
proof -
  let ?E = "example_env (Inr ''payload'') (Inr []) None"
  let ?argv = "[''node'', ''app.js'', ''vote=Tom'']"
  have "client (program ?E ?argv 0) = Connected"
    by (simp add: program_def example_env_main forEach_frame connect_def del: forEach.simps)
  then show ?thesis by simp
qed

end
